theory Spec2Isabelle
  imports Complex_Main "HOL-Library.AList" "HOL-Library.Log_Nat"
begin

section \<open>Student Finance Manager: the ledger core of app.py\<close>

text \<open>
  The development embeds the core of \<^verbatim>\<open>src/app.py\<close>: the dataclasses
  \<^verbatim>\<open>Transaction\<close> and \<^verbatim>\<open>Student\<close>, the class \<^verbatim>\<open>FinanceManager\<close> and its
  methods. The menu loop (\<^verbatim>\<open>run_cli\<close>) only reads input and prints; it is not embedded.

  Conventions of the embedding.
  \<^item> A Python \<^verbatim>\<open>float\<close> is read as the rational number it denotes, and \<^verbatim>\<open>+\<close>, \<^verbatim>\<open>-\<close>
    are exact, except where the rounding of the float operations matters: the balance
    after a sequence of calls is settled on definitions that round every float result.
  \<^item> A Python \<^verbatim>\<open>dict\<close> is an association list in insertion order (Python keeps that
    order); \<^verbatim>\<open>d[k] = v\<close> is \<^const>\<open>AList.update\<close> (overwrite in place, or append),
    \<^verbatim>\<open>d.pop(k, None)\<close> is \<^const>\<open>AList.delete\<close>, \<^verbatim>\<open>d.get(k)\<close> is \<^const>\<open>map_of\<close>.
  \<^item> A method that mutates \<^verbatim>\<open>self\<close> takes the manager and returns the new one
    beside its return value.
  \<^item> The library module \<^verbatim>\<open>json\<close> is not code of the program: a file is represented
    by the value \<^verbatim>\<open>json.load\<close> returns for it (or by the fact that it raises), and
    \<^verbatim>\<open>json.dump\<close> writes a file that \<^verbatim>\<open>json.load\<close> reads back as the dumped value.
\<close>

subsection \<open>JSON values and Python dictionaries with string keys\<close>

datatype json =
    JNull
  | JBool bool
  | JNum rat
  | JStr string
  | JArr "json list"
  | JObj "(string \<times> json) list"

subsection \<open>The dataclasses\<close>

record Transaction =
  ttype :: string
  amount :: rat
  description :: string
  date :: string

record Student =
  student_id :: string
  name :: string
  transactions :: "Transaction list"

record FinanceManager =
  students :: "(string \<times> Student) list"

text \<open>\<^verbatim>\<open>FinanceManager.__init__\<close>: an empty dictionary of students.\<close>

definition init :: FinanceManager where
  "init = \<lparr>students = []\<rparr>"

text \<open>
  Python's \<^verbatim>\<open>round(x, 2)\<close> on the exact value of \<^verbatim>\<open>x\<close>: the nearest multiple of
  1/100, a tie going to the even one.
\<close>

definition round_half_even :: "rat \<Rightarrow> int" where
  "round_half_even x =
     (let f = \<lfloor>x\<rfloor>; d = x - of_int f
      in if d < 1 / 2 then f
         else if 1 / 2 < d then f + 1
         else if even f then f else f + 1)"

definition round2 :: "rat \<Rightarrow> rat" where
  "round2 x = of_int (round_half_even (x * 100)) / 100"

text \<open>\<^verbatim>\<open>Transaction.to_dict\<close> (\<^verbatim>\<open>asdict\<close>: the fields in declaration order).\<close>

definition Transaction_to_dict :: "Transaction \<Rightarrow> json" where
  "Transaction_to_dict t =
     JObj [(''ttype'', JStr (ttype t)),
           (''amount'', JNum (amount t)),
           (''description'', JStr (description t)),
           (''date'', JStr (date t))]"

text \<open>\<^verbatim>\<open>Student.to_dict\<close>.\<close>

definition Student_to_dict :: "Student \<Rightarrow> json" where
  "Student_to_dict s =
     JObj [(''student_id'', JStr (student_id s)),
           (''name'', JStr (name s)),
           (''transactions'', JArr (map Transaction_to_dict (transactions s)))]"

text \<open>
  \<^verbatim>\<open>Student.balance\<close>: the loop over the transactions with the accumulator \<^verbatim>\<open>bal\<close>,
  starting at \<^verbatim>\<open>0.0\<close>.
\<close>

definition balance_step :: "rat \<Rightarrow> Transaction \<Rightarrow> rat" where
  "balance_step bal t = (if ttype t = ''income'' then bal + amount t else bal - amount t)"

definition balance :: "Student \<Rightarrow> rat" where
  "balance s = foldl balance_step 0 (transactions s)"

subsection \<open>Student management\<close>

definition add_student :: "FinanceManager \<Rightarrow> string \<Rightarrow> string \<Rightarrow> bool \<times> FinanceManager" where
  "add_student fm sid nm =
     (if sid \<in> set (map fst (students fm)) then (False, fm)
      else (True, fm\<lparr>students :=
              AList.update sid \<lparr>student_id = sid, name = nm, transactions = []\<rparr> (students fm)\<rparr>))"

definition remove_student :: "FinanceManager \<Rightarrow> string \<Rightarrow> bool \<times> FinanceManager" where
  "remove_student fm sid =
     (map_of (students fm) sid \<noteq> None, fm\<lparr>students := AList.delete sid (students fm)\<rparr>)"

definition find_student :: "FinanceManager \<Rightarrow> string \<Rightarrow> Student option" where
  "find_student fm sid = map_of (students fm) sid"

subsection \<open>Transactions\<close>

text \<open>
  \<^verbatim>\<open>record_transaction\<close>. The optional \<^verbatim>\<open>date\<close> is an option; \<open>today\<close> is what
  \<^verbatim>\<open>datetime.now().strftime(DATE_FMT)\<close> returns at the call. The append mutates the
  \<^verbatim>\<open>Student\<close> object the dictionary holds, so the entry changes in place.
\<close>

definition record_transaction ::
  "FinanceManager \<Rightarrow> string \<Rightarrow> string \<Rightarrow> rat \<Rightarrow> string \<Rightarrow> string option \<Rightarrow> string
     \<Rightarrow> bool \<times> FinanceManager" where
  "record_transaction fm sid tt amt desc dt today =
     (case find_student fm sid of
        None \<Rightarrow> (False, fm)
      | Some student \<Rightarrow>
          if tt \<notin> {''income'', ''expense''} then (False, fm)
          else
            let d = (case dt of None \<Rightarrow> today | Some d' \<Rightarrow> d');
                tx = \<lparr>ttype = tt, amount = round2 amt, description = desc, date = d\<rparr>
            in (True, fm\<lparr>students :=
                  AList.update sid (student\<lparr>transactions := transactions student @ [tx]\<rparr>)
                    (students fm)\<rparr>))"

subsection \<open>Reports\<close>

text \<open>The dictionaries the reports return are string-keyed, as \<^const>\<open>JObj\<close> holds them.\<close>

definition student_report :: "FinanceManager \<Rightarrow> string \<Rightarrow> (string \<times> json) list option" where
  "student_report fm sid =
     (case find_student fm sid of
        None \<Rightarrow> None
      | Some student \<Rightarrow>
          Some [(''student_id'', JStr (student_id student)),
                (''name'', JStr (name student)),
                (''balance'', JNum (round2 (balance student))),
                (''transactions'', JArr (map Transaction_to_dict (transactions student)))])"

definition all_students_summary :: "FinanceManager \<Rightarrow> (string \<times> json) list list" where
  "all_students_summary fm =
     map (\<lambda>s. [(''student_id'', JStr (student_id s)),
               (''name'', JStr (name s)),
               (''balance'', JNum (round2 (balance s))),
               (''num_transactions'', JNum (of_nat (length (transactions s))))])
         (map snd (students fm))"

subsection \<open>Persistence\<close>

text \<open>
  A file system maps a path to a file. A file is \<^verbatim>\<open>Doc v\<close> when \<^verbatim>\<open>json.load\<close> returns
  \<open>v\<close> for it and \<^verbatim>\<open>Unparsable\<close> when \<^verbatim>\<open>json.load\<close> raises (invalid JSON). The
  dictionary \<^verbatim>\<open>json.load\<close> builds for a JSON object has no key twice, so a lookup in
  the list of a \<^const>\<open>JObj\<close> is a lookup in that dictionary.
\<close>

datatype file_content = Unparsable | Doc json

type_synonym files = "string \<Rightarrow> file_content option"

datatype exn = JSONDecodeError | KeyError string | AttributeError | TypeError

text \<open>The line a call of \<^verbatim>\<open>load\<close> prints.\<close>

datatype printed =
    Loaded string
  | NoDataFile string
  | FailedToLoad exn

text \<open>
  The fields of the dataclasses carry their annotated types (\<^verbatim>\<open>str\<close>, \<^verbatim>\<open>float\<close>).
  Python does not check them: a document that stores a value of another JSON type in a
  field takes \<^verbatim>\<open>load\<close> outside the annotations, where the source keeps the value as it
  is. The embedding marks that case \<open>IllTyped\<close> and says nothing more about it.
\<close>

datatype 'a res = Ok 'a | Raise exn | IllTyped

text \<open>
  \<^verbatim>\<open>save\<close>: \<^verbatim>\<open>json.dump\<close> of the dictionary it builds, written over the file. A
  write that fails raises out of \<^verbatim>\<open>save\<close>; the embedding has the write succeed.
\<close>

definition save :: "FinanceManager \<Rightarrow> string \<Rightarrow> files \<Rightarrow> files" where
  "save fm filename fs =
     fs(filename \<mapsto> Doc (JObj [(''students'', JArr (map Student_to_dict (map snd (students fm))))]))"

text \<open>\<^verbatim>\<open>x.get(k, default)\<close>: only a dictionary has the method.\<close>

definition py_get :: "json \<Rightarrow> string \<Rightarrow> json \<Rightarrow> json res" where
  "py_get x k dflt =
     (case x of
        JObj kvs \<Rightarrow> Ok (case map_of kvs k of None \<Rightarrow> dflt | Some v \<Rightarrow> v)
      | _ \<Rightarrow> Raise AttributeError)"

text \<open>
  \<^verbatim>\<open>for s in x\<close>: a list yields its elements, a dictionary its keys, a string its
  characters; \<^verbatim>\<open>None\<close>, a boolean and a number are not iterable.
\<close>

definition py_iter :: "json \<Rightarrow> json list res" where
  "py_iter x =
     (case x of
        JArr xs \<Rightarrow> Ok xs
      | JObj kvs \<Rightarrow> Ok (map (\<lambda>kv. JStr (fst kv)) kvs)
      | JStr cs \<Rightarrow> Ok (map (\<lambda>c. JStr [c]) cs)
      | _ \<Rightarrow> Raise TypeError)"

text \<open>\<^verbatim>\<open>s[k]\<close> on a dictionary.\<close>

definition py_index :: "(string \<times> json) list \<Rightarrow> string \<Rightarrow> json res" where
  "py_index kvs k = (case map_of kvs k of None \<Rightarrow> Raise (KeyError k) | Some v \<Rightarrow> Ok v)"

definition as_str :: "json \<Rightarrow> string res" where
  "as_str v = (case v of JStr s \<Rightarrow> Ok s | _ \<Rightarrow> IllTyped)"

definition as_num :: "json \<Rightarrow> rat res" where
  "as_num v = (case v of JNum x \<Rightarrow> Ok x | _ \<Rightarrow> IllTyped)"

definition Transaction_fields :: "string list" where
  "Transaction_fields = [''ttype'', ''amount'', ''description'', ''date'']"

text \<open>
  \<^verbatim>\<open>Transaction(**t)\<close>: \<^verbatim>\<open>t\<close> must be a mapping, and its keys exactly the four fields
  (a missing or an unexpected keyword argument is a \<^verbatim>\<open>TypeError\<close>).
\<close>

definition Transaction_of :: "json \<Rightarrow> Transaction res" where
  "Transaction_of t =
     (case t of
        JObj kvs \<Rightarrow>
          if list_all (\<lambda>k. k \<in> set Transaction_fields) (map fst kvs)
             \<and> list_all (\<lambda>f. f \<in> set (map fst kvs)) Transaction_fields
          then
            (case (map_of kvs ''ttype'', map_of kvs ''amount'',
                   map_of kvs ''description'', map_of kvs ''date'') of
               (Some (JStr a), Some (JNum b), Some (JStr c), Some (JStr d)) \<Rightarrow>
                 Ok \<lparr>ttype = a, amount = b, description = c, date = d\<rparr>
             | _ \<Rightarrow> IllTyped)
          else Raise TypeError
      | _ \<Rightarrow> Raise TypeError)"

text \<open>The list comprehension \<^verbatim>\<open>[Transaction(**t) for t in ...]\<close>, left to right.\<close>

fun load_transactions :: "json list \<Rightarrow> Transaction list res" where
  "load_transactions [] = Ok []"
| "load_transactions (t # ts) =
     (case Transaction_of t of
        Ok tx \<Rightarrow> (case load_transactions ts of Ok txs \<Rightarrow> Ok (tx # txs) | Raise e \<Rightarrow> Raise e | IllTyped \<Rightarrow> IllTyped)
      | Raise e \<Rightarrow> Raise e
      | IllTyped \<Rightarrow> IllTyped)"

text \<open>
  The body of the loop of \<^verbatim>\<open>load\<close> up to the construction of the \<^verbatim>\<open>Student\<close>:
  the transactions first, then \<^verbatim>\<open>s["student_id"]\<close>, then \<^verbatim>\<open>s["name"]\<close>.
\<close>

definition load_student :: "json \<Rightarrow> Student res" where
  "load_student s =
     (case py_get s ''transactions'' (JArr []) of
        Raise e \<Rightarrow> Raise e
      | IllTyped \<Rightarrow> IllTyped
      | Ok v \<Rightarrow>
         (case py_iter v of
            Raise e \<Rightarrow> Raise e
          | IllTyped \<Rightarrow> IllTyped
          | Ok ts \<Rightarrow>
             (case load_transactions ts of
                Raise e \<Rightarrow> Raise e
              | IllTyped \<Rightarrow> IllTyped
              | Ok txs \<Rightarrow>
                 (case s of
                    JObj kvs \<Rightarrow>
                      (case py_index kvs ''student_id'' of
                         Raise e \<Rightarrow> Raise e
                       | IllTyped \<Rightarrow> IllTyped
                       | Ok i \<Rightarrow>
                          (case py_index kvs ''name'' of
                             Raise e \<Rightarrow> Raise e
                           | IllTyped \<Rightarrow> IllTyped
                           | Ok n \<Rightarrow>
                              (case (as_str i, as_str n) of
                                 (Ok i', Ok n') \<Rightarrow>
                                    Ok \<lparr>student_id = i', name = n', transactions = txs\<rparr>
                               | _ \<Rightarrow> IllTyped)))
                  | _ \<Rightarrow> Raise AttributeError))))"

text \<open>
  The loop of \<^verbatim>\<open>load\<close> over the entries, on the dictionary \<^verbatim>\<open>self.students\<close> as it
  grows. An exception leaves the loop with the dictionary built so far.
\<close>

fun load_loop :: "json list \<Rightarrow> (string \<times> Student) list \<Rightarrow> (string \<times> Student) list \<times> unit res" where
  "load_loop [] acc = (acc, Ok ())"
| "load_loop (s # ss) acc =
     (case load_student s of
        Ok st \<Rightarrow> load_loop ss (AList.update (student_id st) st acc)
      | Raise e \<Rightarrow> (acc, Raise e)
      | IllTyped \<Rightarrow> (acc, IllTyped))"

text \<open>
  What a call of \<^verbatim>\<open>load\<close> does: the value it returns, the line it prints and the
  manager it leaves; or \<open>OutsideAnnotations\<close> for a document with an ill-typed field.
\<close>

datatype load_result =
    Returned bool printed FinanceManager
  | OutsideAnnotations

text \<open>
  \<^verbatim>\<open>load\<close>. \<^verbatim>\<open>open\<close> raises \<^verbatim>\<open>FileNotFoundError\<close> for a missing file and
  \<^verbatim>\<open>json.load\<close> raises on invalid JSON, both before \<^verbatim>\<open>self.students = {}\<close>; every
  later exception is raised after that assignment, inside the same \<^verbatim>\<open>try\<close>.
\<close>

definition load :: "FinanceManager \<Rightarrow> string \<Rightarrow> files \<Rightarrow> load_result" where
  "load fm filename fs =
     (case fs filename of
        None \<Rightarrow> Returned False (NoDataFile filename) fm
      | Some Unparsable \<Rightarrow> Returned False (FailedToLoad JSONDecodeError) fm
      | Some (Doc data) \<Rightarrow>
         (case py_get data ''students'' (JArr []) of
            Raise e \<Rightarrow> Returned False (FailedToLoad e) (fm\<lparr>students := []\<rparr>)
          | IllTyped \<Rightarrow> OutsideAnnotations
          | Ok v \<Rightarrow>
             (case py_iter v of
                Raise e \<Rightarrow> Returned False (FailedToLoad e) (fm\<lparr>students := []\<rparr>)
              | IllTyped \<Rightarrow> OutsideAnnotations
              | Ok ss \<Rightarrow>
                 (case load_loop ss [] of
                    (acc, Ok u) \<Rightarrow> Returned True (Loaded filename) (fm\<lparr>students := acc\<rparr>)
                  | (acc, Raise e) \<Rightarrow> Returned False (FailedToLoad e) (fm\<lparr>students := acc\<rparr>)
                  | (acc, IllTyped) \<Rightarrow> OutsideAnnotations))))"

subsection \<open>Calls in sequence, reachable states\<close>

text \<open>
  A caller that runs \<^verbatim>\<open>record_transaction\<close> on one student for each entry of a list
  in turn, as the menu loop does call after call. An entry holds the arguments of one
  call: the type, the amount, the description, the optional date and the clock's date.
  The result says whether every call returned \<^verbatim>\<open>True\<close>.
\<close>

type_synonym call = "string \<times> rat \<times> string \<times> string option \<times> string"

fun record_all :: "FinanceManager \<Rightarrow> string \<Rightarrow> call list \<Rightarrow> bool \<times> FinanceManager" where
  "record_all fm sid [] = (True, fm)"
| "record_all fm sid ((tt, amt, desc, dt, today) # cs) =
     (case record_transaction fm sid tt amt desc dt today of
        (ok, fm') \<Rightarrow> (case record_all fm' sid cs of (oks, fm'') \<Rightarrow> (ok \<and> oks, fm'')))"

text \<open>The amounts passed by the calls of one type, in call order.\<close>

definition amounts_of :: "string \<Rightarrow> call list \<Rightarrow> rat list" where
  "amounts_of tt cs = map (\<lambda>c. fst (snd c)) (filter (\<lambda>c. fst c = tt) cs)"

text \<open>
  The balance as the specification words it: the sum of the income amounts minus the sum
  of the expense amounts, rounded to two decimals.
\<close>

definition spec_balance :: "call list \<Rightarrow> rat" where
  "spec_balance cs = round2 (sum_list (amounts_of ''income'' cs) - sum_list (amounts_of ''expense'' cs))"

text \<open>The value under \<^verbatim>\<open>"balance"\<close> in the report of a student.\<close>

definition reported_balance :: "FinanceManager \<Rightarrow> string \<Rightarrow> json option" where
  "reported_balance fm sid =
     (case student_report fm sid of None \<Rightarrow> None | Some r \<Rightarrow> map_of r ''balance'')"

text \<open>The value a call of \<^verbatim>\<open>load\<close> returns to its caller.\<close>

definition returned :: "load_result \<Rightarrow> bool option" where
  "returned r = (case r of Returned b out fm \<Rightarrow> Some b | OutsideAnnotations \<Rightarrow> None)"

text \<open>
  A dictionary has no key twice; the ledger's invariant is that every key is the
  \<^verbatim>\<open>student_id\<close> of its value.
\<close>

definition keys_match :: "(string \<times> Student) list \<Rightarrow> bool" where
  "keys_match al = list_all (\<lambda>kv. student_id (snd kv) = fst kv) al"

definition ledger_ok :: "FinanceManager \<Rightarrow> bool" where
  "ledger_ok fm = (distinct (map fst (students fm)) \<and> keys_match (students fm))"

text \<open>
  The states of the program: the files on disk and the manager in memory, from a new
  manager beside any files, by the five operations. A \<^verbatim>\<open>load\<close> of a document with an
  ill-typed field is outside the embedding and is no step.
\<close>

inductive reachable :: "files \<Rightarrow> FinanceManager \<Rightarrow> bool" where
  r_init: "reachable fs init"
| r_add: "reachable fs fm \<Longrightarrow> reachable fs (snd (add_student fm sid nm))"
| r_remove: "reachable fs fm \<Longrightarrow> reachable fs (snd (remove_student fm sid))"
| r_record: "reachable fs fm \<Longrightarrow>
     reachable fs (snd (record_transaction fm sid tt amt desc dt today))"
| r_save: "reachable fs fm \<Longrightarrow> reachable (save fm path fs) fm"
| r_load: "reachable fs fm \<Longrightarrow> load fm path fs = Returned b out fm' \<Longrightarrow> reachable fs fm'"

subsection \<open>The balance with float rounding made explicit\<close>

text \<open>
  The definitions above read \<^verbatim>\<open>+\<close> and \<^verbatim>\<open>-\<close> on floats as exact. What the reported
  balance is after many additions depends on their rounding, so the methods on that path
  are embedded again with the rounding written out. The parameter \<open>fl\<close> is the rounding of
  a real number to the nearest \<^verbatim>\<open>float\<close> (a double): the float \<^verbatim>\<open>x + y\<close> is
  \<open>fl (x + y)\<close>, and \<^verbatim>\<open>round(x, 2)\<close> is \<open>fl\<close> of the decimal rounding of \<open>x\<close>.
  With \<open>fl\<close> the identity these are the definitions above. Infinities and NaN are no
  values here: the statement on these definitions bounds the amounts, so that every
  float result is finite.
\<close>

definition py_round2 :: "(rat \<Rightarrow> rat) \<Rightarrow> rat \<Rightarrow> rat" where
  "py_round2 fl x = fl (round2 x)"

definition balance_step_float :: "(rat \<Rightarrow> rat) \<Rightarrow> rat \<Rightarrow> Transaction \<Rightarrow> rat" where
  "balance_step_float fl bal t =
     (if ttype t = ''income'' then fl (bal + amount t) else fl (bal - amount t))"

definition balance_float :: "(rat \<Rightarrow> rat) \<Rightarrow> Student \<Rightarrow> rat" where
  "balance_float fl s = foldl (balance_step_float fl) 0 (transactions s)"

definition record_transaction_float ::
  "(rat \<Rightarrow> rat) \<Rightarrow> FinanceManager \<Rightarrow> string \<Rightarrow> string \<Rightarrow> rat \<Rightarrow> string \<Rightarrow> string option
     \<Rightarrow> string \<Rightarrow> bool \<times> FinanceManager" where
  "record_transaction_float fl fm sid tt amt desc dt today =
     (case find_student fm sid of
        None \<Rightarrow> (False, fm)
      | Some student \<Rightarrow>
          if tt \<notin> {''income'', ''expense''} then (False, fm)
          else
            let d = (case dt of None \<Rightarrow> today | Some d' \<Rightarrow> d');
                tx = \<lparr>ttype = tt, amount = py_round2 fl amt, description = desc, date = d\<rparr>
            in (True, fm\<lparr>students :=
                  AList.update sid (student\<lparr>transactions := transactions student @ [tx]\<rparr>)
                    (students fm)\<rparr>))"

definition student_report_float ::
  "(rat \<Rightarrow> rat) \<Rightarrow> FinanceManager \<Rightarrow> string \<Rightarrow> (string \<times> json) list option" where
  "student_report_float fl fm sid =
     (case find_student fm sid of
        None \<Rightarrow> None
      | Some student \<Rightarrow>
          Some [(''student_id'', JStr (student_id student)),
                (''name'', JStr (name student)),
                (''balance'', JNum (py_round2 fl (balance_float fl student))),
                (''transactions'', JArr (map Transaction_to_dict (transactions student)))])"

fun record_all_float ::
  "(rat \<Rightarrow> rat) \<Rightarrow> FinanceManager \<Rightarrow> string \<Rightarrow> call list \<Rightarrow> bool \<times> FinanceManager" where
  "record_all_float fl fm sid [] = (True, fm)"
| "record_all_float fl fm sid ((tt, amt, desc, dt, today) # cs) =
     (case record_transaction_float fl fm sid tt amt desc dt today of
        (ok, fm') \<Rightarrow>
          (case record_all_float fl fm' sid cs of (oks, fm'') \<Rightarrow> (ok \<and> oks, fm'')))"

definition reported_balance_float :: "(rat \<Rightarrow> rat) \<Rightarrow> FinanceManager \<Rightarrow> string \<Rightarrow> json option" where
  "reported_balance_float fl fm sid =
     (case student_report_float fl fm sid of None \<Rightarrow> None | Some r \<Rightarrow> map_of r ''balance'')"

text \<open>The transaction a successful call appends.\<close>

definition stored_float :: "(rat \<Rightarrow> rat) \<Rightarrow> call \<Rightarrow> Transaction" where
  "stored_float fl c =
     (case c of (tt, amt, desc, dt, today) \<Rightarrow>
        \<lparr>ttype = tt, amount = py_round2 fl amt, description = desc,
         date = (case dt of None \<Rightarrow> today | Some d \<Rightarrow> d)\<rparr>)"

text \<open>
  The amount of a call in cents once rounded to two decimals, with the sign the balance
  gives it.
\<close>

definition signed_cents :: "call \<Rightarrow> int" where
  "signed_cents c =
     (if fst c = ''income'' then round_half_even (fst (snd c) * 100)
      else - round_half_even (fst (snd c) * 100))"

text \<open>
  What rounding to the nearest double guarantees, for magnitudes up to \<open>2 * 10^9\<close> (far
  from overflow): the error is at most half a unit in the last place, which is at most
  \<open>|x| / 2^53\<close> for a normal result and at most \<open>1 / 2^1075\<close> for a subnormal one.
\<close>

definition nearest_double :: "(rat \<Rightarrow> rat) \<Rightarrow> bool" where
  "nearest_double fl =
     (\<forall>x. \<bar>x\<bar> \<le> 2 * 10 ^ 9 \<longrightarrow> \<bar>fl x - x\<bar> \<le> \<bar>x\<bar> / 2 ^ 53 + 1 / 2 ^ 1075)"

text \<open>
  Rounding to 53 significant bits, ties to even, with no bound on the exponent: for
  \<open>2^e \<le> |x| < 2^(e+1)\<close> the doubles are \<open>2^(e-52)\<close> apart. It is the rounding to
  the nearest double wherever the result is a normal double.
\<close>

definition binary_exponent :: "rat \<Rightarrow> int" where
  "binary_exponent x =
     (case quotient_of \<bar>x\<bar> of (p, q) \<Rightarrow>
        let d = bitlen p - bitlen q in if 2 powi d \<le> \<bar>x\<bar> then d else d - 1)"

definition nearest53 :: "rat \<Rightarrow> rat" where
  "nearest53 x =
     (if x = 0 then 0
      else let ulp = 2 powi (binary_exponent x - 52)
           in of_int (round_half_even (x / ulp)) * ulp)"

section \<open>Properties\<close>

subsection \<open>Association lists as dictionaries\<close>

lemma update_fresh: "k \<notin> fst ` set al \<Longrightarrow> AList.update k v al = al @ [(k, v)]"
  by (induction al) auto

lemma map_of_None_keys: "map_of al k = None \<longleftrightarrow> k \<notin> fst ` set al"
  by (simp add: map_of_eq_None_iff)

lemma delete_filter: "AList.delete k al = filter (\<lambda>kv. fst kv \<noteq> k) al"
  by (induction al) auto

subsection \<open>Rounding at concrete amounts\<close>

lemma round2_1234567: "round2 (1234567 / 1000) = 123457 / 100"
  by code_simp

subsection \<open>The balance\<close>

lemma balance_foldl:
  "foldl balance_step b ts = b + (\<Sum>t\<leftarrow>ts. if ttype t = ''income'' then amount t else - amount t)"
  by (induction ts arbitrary: b) (simp_all add: balance_step_def)

text \<open>
  C10. \<^verbatim>\<open>Student.balance\<close> classifies a transaction by equality of its \<^verbatim>\<open>ttype\<close> with
  \<^verbatim>\<open>"income"\<close> only: the balance is the sum, over all the transactions of the student, of
  the amount when the type is exactly \<^verbatim>\<open>"income"\<close> and of the negated amount for every
  other type, \<^verbatim>\<open>"expense"\<close> or not. Every transaction contributes, and the function has
  no error result. Such other types can arrive through \<^verbatim>\<open>load\<close>: \<^verbatim>\<open>Transaction(**t)\<close>
  takes whatever string the document holds under \<^verbatim>\<open>"ttype"\<close>.
\<close>

theorem balance_classifies:
  "balance s = (\<Sum>t\<leftarrow>transactions s. if ttype t = ''income'' then amount t else - amount t)
   \<and> Transaction_of (JObj [(''ttype'', JStr tt), (''amount'', JNum a),
                            (''description'', JStr d), (''date'', JStr dt)])
       = Ok \<lparr>ttype = tt, amount = a, description = d, date = dt\<rparr>"
  by (simp add: balance_def balance_foldl Transaction_of_def Transaction_fields_def)

theorem balance_classifies_witness:
  "balance \<lparr>student_id = ''S1'', name = ''Alice'', transactions =
      [\<lparr>ttype = ''income'', amount = 10, description = ''a'', date = ''2024-01-10''\<rparr>,
       \<lparr>ttype = ''expense'', amount = 3, description = ''b'', date = ''2024-01-11''\<rparr>,
       \<lparr>ttype = ''refund'', amount = 2, description = ''c'', date = ''2024-01-12''\<rparr>]\<rparr> = 5
   \<and> Transaction_of (JObj [(''ttype'', JStr ''refund''), (''amount'', JNum 2),
                            (''description'', JStr ''c''), (''date'', JStr ''2024-01-12'')])
       = Ok \<lparr>ttype = ''refund'', amount = 2, description = ''c'', date = ''2024-01-12''\<rparr>"
  using balance_classifies [of "\<lparr>student_id = ''S1'', name = ''Alice'', transactions =
      [\<lparr>ttype = ''income'', amount = 10, description = ''a'', date = ''2024-01-10''\<rparr>,
       \<lparr>ttype = ''expense'', amount = 3, description = ''b'', date = ''2024-01-11''\<rparr>,
       \<lparr>ttype = ''refund'', amount = 2, description = ''c'', date = ''2024-01-12''\<rparr>]\<rparr>"
      "''refund''" 2 "''c''" "''2024-01-12''"]
  by simp

subsection \<open>Student management\<close>

text \<open>
  C6. When \<^verbatim>\<open>student_id\<close> is already present, \<^verbatim>\<open>add_student\<close> returns \<^verbatim>\<open>False\<close> and the
  manager is the one before the call, so the existing student keeps name and transactions.
  Otherwise it returns \<^verbatim>\<open>True\<close> and the dictionary has one more entry, at its end: a
  student with that id, that name and no transaction.
\<close>

theorem add_student_spec:
  "(find_student fm sid = Some s \<longrightarrow>
      add_student fm sid nm = (False, fm))
   \<and> (find_student fm sid = None \<longrightarrow>
        add_student fm sid nm =
          (True, fm\<lparr>students := students fm @ [(sid, \<lparr>student_id = sid, name = nm, transactions = []\<rparr>)]\<rparr>)
        \<and> find_student (snd (add_student fm sid nm)) sid
            = Some \<lparr>student_id = sid, name = nm, transactions = []\<rparr>)"
proof (intro conjI impI)
  assume "find_student fm sid = Some s"
  then have "sid \<in> fst ` set (students fm)"
    by (metis find_student_def map_of_None_keys option.distinct(1))
  then show "add_student fm sid nm = (False, fm)"
    by (simp add: add_student_def)
next
  assume "find_student fm sid = None"
  then have fresh: "sid \<notin> fst ` set (students fm)"
    by (simp add: find_student_def map_of_None_keys)
  then show *: "add_student fm sid nm =
          (True, fm\<lparr>students := students fm @ [(sid, \<lparr>student_id = sid, name = nm, transactions = []\<rparr>)]\<rparr>)"
    by (simp add: add_student_def update_fresh)
  from fresh show "find_student (snd (add_student fm sid nm)) sid
            = Some \<lparr>student_id = sid, name = nm, transactions = []\<rparr>"
    by (simp add: add_student_def find_student_def update_conv')
qed

theorem add_student_spec_witness:
  "add_student init ''S1'' ''Alice'' =
     (True, \<lparr>students = [(''S1'', \<lparr>student_id = ''S1'', name = ''Alice'', transactions = []\<rparr>)]\<rparr>)
   \<and> add_student \<lparr>students = [(''S1'', \<lparr>student_id = ''S1'', name = ''Alice'', transactions = []\<rparr>)]\<rparr>
         ''S1'' ''Bob'' =
     (False, \<lparr>students = [(''S1'', \<lparr>student_id = ''S1'', name = ''Alice'', transactions = []\<rparr>)]\<rparr>)"
  using add_student_spec [of init "''S1''" _ "''Alice''"]
    add_student_spec [of "\<lparr>students = [(''S1'', \<lparr>student_id = ''S1'', name = ''Alice'', transactions = []\<rparr>)]\<rparr>"
       "''S1''" "\<lparr>student_id = ''S1'', name = ''Alice'', transactions = []\<rparr>" "''Bob''"]
  by (simp add: init_def find_student_def)

text \<open>
  C7. \<^verbatim>\<open>remove_student\<close> returns \<^verbatim>\<open>True\<close> exactly when a student with that id existed
  before the call. After the call \<^verbatim>\<open>find_student\<close> and \<^verbatim>\<open>student_report\<close> find nothing
  under the id, and the dictionary is the old one without the entry of that key: the
  removed student, with its transactions, is no longer held by the ledger.
\<close>

theorem remove_student_spec:
  "fst (remove_student fm sid) = (find_student fm sid \<noteq> None)
   \<and> find_student (snd (remove_student fm sid)) sid = None
   \<and> student_report (snd (remove_student fm sid)) sid = None
   \<and> students (snd (remove_student fm sid)) = filter (\<lambda>kv. fst kv \<noteq> sid) (students fm)"
proof -
  have gone: "find_student (snd (remove_student fm sid)) sid = None"
    by (simp add: remove_student_def find_student_def delete_conv')
  then have "student_report (snd (remove_student fm sid)) sid = None"
    by (simp add: student_report_def)
  with gone show ?thesis
    by (simp add: remove_student_def find_student_def delete_filter)
qed

theorem remove_student_spec_witness:
  "remove_student \<lparr>students = [(''S1'', \<lparr>student_id = ''S1'', name = ''Alice'', transactions = []\<rparr>)]\<rparr> ''S1''
     = (True, \<lparr>students = []\<rparr>)
   \<and> fst (remove_student \<lparr>students = []\<rparr> ''S1'') = False"
  using remove_student_spec [of "\<lparr>students = [(''S1'', \<lparr>student_id = ''S1'', name = ''Alice'', transactions = []\<rparr>)]\<rparr>" "''S1''"]
   remove_student_spec [of "\<lparr>students = []\<rparr>" "''S1''"]
  by (simp add: find_student_def prod_eq_iff)

subsection \<open>Recording a transaction\<close>

text \<open>
  C5. \<^verbatim>\<open>record_transaction\<close> returns \<^verbatim>\<open>False\<close> and leaves the manager as it was when
  the student is not present or the type is neither \<^verbatim>\<open>"income"\<close> nor \<^verbatim>\<open>"expense"\<close>
  (so no student is created). Otherwise it returns \<^verbatim>\<open>True\<close>; the student's sequence is
  the old one with exactly one transaction appended at its end, whose amount is the given
  amount rounded to two decimals; every other student and the order of the keys are
  unchanged; and the report lists the transactions with the stored amounts, applying no
  further rounding to them.
\<close>

theorem record_transaction_spec:
  "((find_student fm sid = None \<or> tt \<notin> {''income'', ''expense''}) \<longrightarrow>
      record_transaction fm sid tt amt desc dt today = (False, fm))
   \<and> (find_student fm sid = Some s \<and> tt \<in> {''income'', ''expense''} \<longrightarrow>
        (\<exists>fm'. record_transaction fm sid tt amt desc dt today = (True, fm')
           \<and> find_student fm' sid =
               Some (s\<lparr>transactions := transactions s @
                  [\<lparr>ttype = tt, amount = round2 amt, description = desc,
                    date = (case dt of None \<Rightarrow> today | Some d \<Rightarrow> d)\<rparr>]\<rparr>)
           \<and> (\<forall>k. k \<noteq> sid \<longrightarrow> find_student fm' k = find_student fm k)
           \<and> map fst (students fm') = map fst (students fm)
           \<and> map_of (the (student_report fm' sid)) ''transactions'' =
               Some (JArr (map Transaction_to_dict (transactions s) @
                  [JObj [(''ttype'', JStr tt), (''amount'', JNum (round2 amt)),
                         (''description'', JStr desc),
                         (''date'', JStr (case dt of None \<Rightarrow> today | Some d \<Rightarrow> d))]]))))"
proof (intro conjI impI)
  assume "find_student fm sid = None \<or> tt \<notin> {''income'', ''expense''}"
  then show "record_transaction fm sid tt amt desc dt today = (False, fm)"
    by (auto simp: record_transaction_def split: option.splits)
next
  assume a: "find_student fm sid = Some s \<and> tt \<in> {''income'', ''expense''}"
  then have key: "sid \<in> fst ` set (students fm)"
    by (metis find_student_def map_of_None_keys option.distinct(1))
  show "\<exists>fm'. record_transaction fm sid tt amt desc dt today = (True, fm')
           \<and> find_student fm' sid =
               Some (s\<lparr>transactions := transactions s @
                  [\<lparr>ttype = tt, amount = round2 amt, description = desc,
                    date = (case dt of None \<Rightarrow> today | Some d \<Rightarrow> d)\<rparr>]\<rparr>)
           \<and> (\<forall>k. k \<noteq> sid \<longrightarrow> find_student fm' k = find_student fm k)
           \<and> map fst (students fm') = map fst (students fm)
           \<and> map_of (the (student_report fm' sid)) ''transactions'' =
               Some (JArr (map Transaction_to_dict (transactions s) @
                  [JObj [(''ttype'', JStr tt), (''amount'', JNum (round2 amt)),
                         (''description'', JStr desc),
                         (''date'', JStr (case dt of None \<Rightarrow> today | Some d \<Rightarrow> d))]]))"
    using a key
    by (auto simp: record_transaction_def find_student_def student_report_def update_conv'
        update_keys Transaction_to_dict_def Let_def)
qed

theorem record_transaction_spec_witness:
  "record_transaction \<lparr>students = [(''S1'', \<lparr>student_id = ''S1'', name = ''Alice'', transactions = []\<rparr>)]\<rparr>
      ''S1'' ''income'' (1234567 / 1000) ''Grant'' (Some ''2024-01-10'') ''2024-02-01''
    = (True, \<lparr>students = [(''S1'', \<lparr>student_id = ''S1'', name = ''Alice'', transactions =
         [\<lparr>ttype = ''income'', amount = 123457 / 100, description = ''Grant'', date = ''2024-01-10''\<rparr>]\<rparr>)]\<rparr>)
   \<and> record_transaction \<lparr>students = [(''S1'', \<lparr>student_id = ''S1'', name = ''Alice'', transactions = []\<rparr>)]\<rparr>
      ''S9'' ''income'' 200 ''Books'' None ''2024-02-01''
    = (False, \<lparr>students = [(''S1'', \<lparr>student_id = ''S1'', name = ''Alice'', transactions = []\<rparr>)]\<rparr>)
   \<and> record_transaction \<lparr>students = [(''S1'', \<lparr>student_id = ''S1'', name = ''Alice'', transactions = []\<rparr>)]\<rparr>
      ''S1'' ''gift'' 200 ''Books'' None ''2024-02-01''
    = (False, \<lparr>students = [(''S1'', \<lparr>student_id = ''S1'', name = ''Alice'', transactions = []\<rparr>)]\<rparr>)"
  using record_transaction_spec [where fm = "\<lparr>students = [(''S1'', \<lparr>student_id = ''S1'', name = ''Alice'', transactions = []\<rparr>)]\<rparr>"
      and sid = "''S1''" and tt = "''income''"
      and s = "\<lparr>student_id = ''S1'', name = ''Alice'', transactions = []\<rparr>"
      and amt = "1234567 / 1000" and desc = "''Grant''" and dt = "Some ''2024-01-10''"
      and today = "''2024-02-01''"]
    record_transaction_spec [where fm = "\<lparr>students = [(''S1'', \<lparr>student_id = ''S1'', name = ''Alice'', transactions = []\<rparr>)]\<rparr>"
      and sid = "''S9''" and tt = "''income''" and amt = 200 and desc = "''Books''" and dt = None
      and today = "''2024-02-01''"]
    record_transaction_spec [where fm = "\<lparr>students = [(''S1'', \<lparr>student_id = ''S1'', name = ''Alice'', transactions = []\<rparr>)]\<rparr>"
      and sid = "''S1''" and tt = "''gift''" and amt = 200 and desc = "''Books''" and dt = None
      and today = "''2024-02-01''"]
  by (simp add: find_student_def record_transaction_def round2_1234567)

subsection \<open>Saving and loading back\<close>

lemma Transaction_of_to_dict: "Transaction_of (Transaction_to_dict t) = Ok t"
  by (simp add: Transaction_of_def Transaction_to_dict_def Transaction_fields_def)

lemma load_transactions_to_dict: "load_transactions (map Transaction_to_dict ts) = Ok ts"
  by (induction ts) (simp_all add: Transaction_of_to_dict)

lemma load_student_to_dict: "load_student (Student_to_dict s) = Ok s"
  by (simp add: load_student_def Student_to_dict_def py_get_def py_iter_def py_index_def
      as_str_def load_transactions_to_dict)

lemma load_loop_to_dict:
  "keys_match al \<Longrightarrow> distinct (map fst al) \<Longrightarrow> fst ` set acc \<inter> fst ` set al = {} \<Longrightarrow>
   load_loop (map Student_to_dict (map snd al)) acc = (acc @ al, Ok ())"
proof (induction al arbitrary: acc)
  case Nil
  then show ?case by simp
next
  case (Cons kv al)
  obtain k s where kv: "kv = (k, s)" by (cases kv)
  from Cons.prems kv have id: "student_id s = k" by (simp add: keys_match_def)
  from Cons.prems kv have fresh: "k \<notin> fst ` set acc" by auto
  have step: "AList.update k s acc = acc @ [(k, s)]" using fresh by (rule update_fresh)
  have "load_loop (map Student_to_dict (map snd al)) (acc @ [(k, s)]) = ((acc @ [(k, s)]) @ al, Ok ())"
  proof (rule Cons.IH)
    show "keys_match al" using Cons.prems(1) by (simp add: keys_match_def)
    show "distinct (map fst al)" using Cons.prems(2) by simp
    show "fst ` set (acc @ [(k, s)]) \<inter> fst ` set al = {}"
      using Cons.prems(2,3) kv by auto
  qed
  then show ?case using kv id step by (simp add: load_student_to_dict)
qed

text \<open>
  C2. Loading the file that \<^verbatim>\<open>save\<close> wrote for a ledger, into any manager (a fresh one
  in particular), returns \<^verbatim>\<open>True\<close> and leaves exactly that ledger: the same students
  in the same order, each with the same id, name and list of transactions, hence the same
  balances. The ledger is one the program can hold, \<^const>\<open>ledger_ok\<close>: a dictionary (no key
  twice) whose keys are the ids of their students, which every reachable state is
  (\<open>reachable_ledger_ok\<close> below).
\<close>

theorem save_load_roundtrip:
  assumes "ledger_ok fm"
  shows "load fm0 path (save fm path fs) = Returned True (Loaded path) fm"
proof -
  have "load_loop (map Student_to_dict (map snd (students fm))) [] = ([] @ students fm, Ok ())"
    using assms by (intro load_loop_to_dict) (simp_all add: ledger_ok_def)
  then show ?thesis
    by (simp add: load_def save_def py_get_def py_iter_def)
qed

theorem save_load_roundtrip_witness:
  "ledger_ok \<lparr>students =
       [(''S1'', \<lparr>student_id = ''S1'', name = ''Alice'', transactions =
          [\<lparr>ttype = ''income'', amount = 150051 / 100, description = ''Grant'', date = ''2024-01-10''\<rparr>,
           \<lparr>ttype = ''expense'', amount = 200, description = ''Books'', date = ''2024-01-15''\<rparr>]\<rparr>),
        (''S2'', \<lparr>student_id = ''S2'', name = ''Bob'', transactions = []\<rparr>)]\<rparr>
   \<and> load init ''students_finance.json''
        (save \<lparr>students =
           [(''S1'', \<lparr>student_id = ''S1'', name = ''Alice'', transactions =
              [\<lparr>ttype = ''income'', amount = 150051 / 100, description = ''Grant'', date = ''2024-01-10''\<rparr>,
               \<lparr>ttype = ''expense'', amount = 200, description = ''Books'', date = ''2024-01-15''\<rparr>]\<rparr>),
            (''S2'', \<lparr>student_id = ''S2'', name = ''Bob'', transactions = []\<rparr>)]\<rparr>
          ''students_finance.json'' Map.empty)
      = Returned True (Loaded ''students_finance.json'')
         \<lparr>students =
           [(''S1'', \<lparr>student_id = ''S1'', name = ''Alice'', transactions =
              [\<lparr>ttype = ''income'', amount = 150051 / 100, description = ''Grant'', date = ''2024-01-10''\<rparr>,
               \<lparr>ttype = ''expense'', amount = 200, description = ''Books'', date = ''2024-01-15''\<rparr>]\<rparr>),
            (''S2'', \<lparr>student_id = ''S2'', name = ''Bob'', transactions = []\<rparr>)]\<rparr>"
proof -
  have ok: "ledger_ok \<lparr>students =
       [(''S1'', \<lparr>student_id = ''S1'', name = ''Alice'', transactions =
          [\<lparr>ttype = ''income'', amount = 150051 / 100, description = ''Grant'', date = ''2024-01-10''\<rparr>,
           \<lparr>ttype = ''expense'', amount = 200, description = ''Books'', date = ''2024-01-15''\<rparr>]\<rparr>),
        (''S2'', \<lparr>student_id = ''S2'', name = ''Bob'', transactions = []\<rparr>)]\<rparr>"
    by (simp add: ledger_ok_def keys_match_def)
  from ok save_load_roundtrip [OF ok, of init "''students_finance.json''" Map.empty]
  show ?thesis by simp
qed

subsection \<open>The invariant of the ledger\<close>

lemma keys_match_update:
  "keys_match al \<Longrightarrow> student_id v = k \<Longrightarrow> keys_match (AList.update k v al)"
  by (induction al) (auto simp: keys_match_def)

lemma keys_match_delete: "keys_match al \<Longrightarrow> keys_match (AList.delete k al)"
  by (induction al) (auto simp: keys_match_def)

lemma keys_match_map_of: "keys_match al \<Longrightarrow> map_of al k = Some s \<Longrightarrow> student_id s = k"
  by (induction al) (auto simp: keys_match_def split: if_splits)

lemma load_loop_ok:
  "distinct (map fst acc) \<Longrightarrow> keys_match acc \<Longrightarrow>
   distinct (map fst (fst (load_loop ss acc))) \<and> keys_match (fst (load_loop ss acc))"
proof (induction ss arbitrary: acc)
  case Nil
  then show ?case by simp
next
  case (Cons s ss)
  show ?case
  proof (cases "load_student s")
    case (Ok st)
    have "distinct (map fst (AList.update (student_id st) st acc))"
      using Cons.prems(1) by (rule distinct_update)
    moreover have "keys_match (AList.update (student_id st) st acc)"
      using Cons.prems(2) by (rule keys_match_update) simp
    ultimately show ?thesis using Ok Cons.IH by simp
  next
    case (Raise e)
    then show ?thesis using Cons.prems by simp
  next
    case IllTyped
    then show ?thesis using Cons.prems by simp
  qed
qed

lemma ledger_ok_init: "ledger_ok init"
  by (simp add: ledger_ok_def init_def keys_match_def)

lemma ledger_ok_add: "ledger_ok fm \<Longrightarrow> ledger_ok (snd (add_student fm sid nm))"
  by (simp add: ledger_ok_def add_student_def distinct_update keys_match_update)

lemma ledger_ok_remove: "ledger_ok fm \<Longrightarrow> ledger_ok (snd (remove_student fm sid))"
  by (simp add: ledger_ok_def remove_student_def distinct_delete keys_match_delete)

lemma ledger_ok_record:
  "ledger_ok fm \<Longrightarrow> ledger_ok (snd (record_transaction fm sid tt amt desc dt today))"
  by (auto simp: ledger_ok_def record_transaction_def find_student_def Let_def distinct_update
      split: option.splits intro!: keys_match_update dest: keys_match_map_of)

lemma ledger_ok_load:
  assumes "ledger_ok fm" and "load fm path fs = Returned b out fm'"
  shows "ledger_ok fm'"
proof -
  have loop: "distinct (map fst acc) \<and> keys_match acc" if "load_loop ss [] = (acc, r)" for ss acc r
    using load_loop_ok [of "[]" ss] that by (simp add: keys_match_def)
  have empty: "ledger_ok (fm\<lparr>students := []\<rparr>)"
    by (simp add: ledger_ok_def keys_match_def)
  show ?thesis
  proof (cases "fs path")
    case None
    with assms show ?thesis by (simp add: load_def)
  next
    case (Some f)
    show ?thesis
    proof (cases f)
      case Unparsable
      with Some assms show ?thesis by (simp add: load_def)
    next
      case (Doc data)
      with Some assms(2) empty show ?thesis
        by (auto simp: load_def ledger_ok_def split: res.splits prod.splits dest: loop)
    qed
  qed
qed

lemma reachable_ledger_ok: "reachable fs fm \<Longrightarrow> ledger_ok fm"
proof (induction rule: reachable.induct)
  case (r_init fs)
  show ?case by (rule ledger_ok_init)
next
  case (r_add fs fm sid nm)
  then show ?case by (simp add: ledger_ok_add)
next
  case (r_remove fs fm sid)
  then show ?case by (simp add: ledger_ok_remove)
next
  case (r_record fs fm sid tt amt desc dt today)
  then show ?case by (simp add: ledger_ok_record)
next
  case (r_save fs fm path)
  then show ?case by simp
next
  case (r_load fs fm path b out fm')
  then show ?case by (blast intro: ledger_ok_load)
qed

text \<open>
  C8. In every state reachable by \<^verbatim>\<open>add_student\<close>, \<^verbatim>\<open>remove_student\<close>,
  \<^verbatim>\<open>record_transaction\<close>, \<^verbatim>\<open>save\<close> and \<^verbatim>\<open>load\<close>, every key of the dictionary of
  students is the \<^verbatim>\<open>student_id\<close> of the student it maps to.
\<close>

theorem reachable_keys_are_ids:
  "reachable fs fm \<Longrightarrow> \<forall>(k, s) \<in> set (students fm). student_id s = k"
  using reachable_ledger_ok [of fs fm]
  by (auto simp: ledger_ok_def keys_match_def list_all_iff)

theorem reachable_keys_are_ids_witness:
  "reachable Map.empty
      \<lparr>students = [(''S1'', \<lparr>student_id = ''S1'', name = ''Alice'', transactions = []\<rparr>)]\<rparr>
   \<and> map (\<lambda>kv. student_id (snd kv))
         (students \<lparr>students = [(''S1'', \<lparr>student_id = ''S1'', name = ''Alice'', transactions = []\<rparr>)]\<rparr>)
       = map fst
         (students \<lparr>students = [(''S1'', \<lparr>student_id = ''S1'', name = ''Alice'', transactions = []\<rparr>)]\<rparr>)"
proof -
  have "reachable Map.empty (snd (add_student init ''S1'' ''Alice''))"
    by (rule r_add [OF r_init])
  then have r: "reachable Map.empty
      \<lparr>students = [(''S1'', \<lparr>student_id = ''S1'', name = ''Alice'', transactions = []\<rparr>)]\<rparr>"
    by (simp add: add_student_def init_def)
  from r reachable_keys_are_ids [OF r] show ?thesis by simp
qed

subsection \<open>The balance after a sequence of recorded transactions\<close>

lemma round2_0: "round2 0 = 0"
  by code_simp

lemma round2_1_250: "round2 (1 / 250) = 0"
  by code_simp

lemma round2_1_125: "round2 (1 / 125) = 1 / 100"
  by code_simp

lemma nearest53_0: "nearest53 0 = 0"
  by (simp add: nearest53_def)

lemma nearest53_1_100: "nearest53 (1 / 100) = 5764607523034235 / 576460752303423488"
  by code_simp

text \<open>
  C4, as the specification words it: after successful calls of \<^verbatim>\<open>record_transaction\<close>
  on one student, the reported balance is the sum of the income amounts passed minus the
  sum of the expense amounts passed, rounded to two decimals (\<^const>\<open>spec_balance\<close>). The
  program rounds each amount when it records it, so the two differ: two incomes of 0.004
  are stored as 0.0 each and the reported balance is 0.0, where the rounded sum of the
  amounts passed is 0.01; so it is with exact additions and with float additions.
\<close>

theorem spec_balance_counterexample:
  "fst (record_all
         \<lparr>students = [(''S1'', \<lparr>student_id = ''S1'', name = ''Alice'', transactions = []\<rparr>)]\<rparr>
         ''S1''
         [(''income'', 1 / 250, ''Gift'', Some ''2024-01-10'', ''2024-02-01''),
          (''income'', 1 / 250, ''Gift'', Some ''2024-01-11'', ''2024-02-01'')])
   \<and> reported_balance
        (snd (record_all
           \<lparr>students = [(''S1'', \<lparr>student_id = ''S1'', name = ''Alice'', transactions = []\<rparr>)]\<rparr>
           ''S1''
           [(''income'', 1 / 250, ''Gift'', Some ''2024-01-10'', ''2024-02-01''),
            (''income'', 1 / 250, ''Gift'', Some ''2024-01-11'', ''2024-02-01'')]))
        ''S1'' = Some (JNum 0)
   \<and> spec_balance
         [(''income'', 1 / 250, ''Gift'', Some ''2024-01-10'', ''2024-02-01''),
          (''income'', 1 / 250, ''Gift'', Some ''2024-01-11'', ''2024-02-01'')] = 1 / 100
   \<and> reported_balance
        (snd (record_all
           \<lparr>students = [(''S1'', \<lparr>student_id = ''S1'', name = ''Alice'', transactions = []\<rparr>)]\<rparr>
           ''S1''
           [(''income'', 1 / 250, ''Gift'', Some ''2024-01-10'', ''2024-02-01''),
            (''income'', 1 / 250, ''Gift'', Some ''2024-01-11'', ''2024-02-01'')]))
        ''S1''
      \<noteq> Some (JNum (spec_balance
         [(''income'', 1 / 250, ''Gift'', Some ''2024-01-10'', ''2024-02-01''),
          (''income'', 1 / 250, ''Gift'', Some ''2024-01-11'', ''2024-02-01'')]))
   \<and> reported_balance_float nearest53
        (snd (record_all_float nearest53
           \<lparr>students = [(''S1'', \<lparr>student_id = ''S1'', name = ''Alice'', transactions = []\<rparr>)]\<rparr>
           ''S1''
           [(''income'', 1 / 250, ''Gift'', Some ''2024-01-10'', ''2024-02-01''),
            (''income'', 1 / 250, ''Gift'', Some ''2024-01-11'', ''2024-02-01'')]))
        ''S1'' = Some (JNum 0)
   \<and> nearest53 (spec_balance
           [(''income'', 1 / 250, ''Gift'', Some ''2024-01-10'', ''2024-02-01''),
            (''income'', 1 / 250, ''Gift'', Some ''2024-01-11'', ''2024-02-01'')])
      = 5764607523034235 / 576460752303423488"
  by (simp add: record_transaction_def find_student_def reported_balance_def student_report_def
      balance_def balance_step_def spec_balance_def amounts_of_def
      record_transaction_float_def reported_balance_float_def student_report_float_def
      balance_float_def balance_step_float_def py_round2_def nearest53_0 nearest53_1_100
      round2_0 round2_1_250 round2_1_125)

subsection \<open>Decimal rounding\<close>

lemma round_half_even_bounds: "\<lfloor>y\<rfloor> \<le> round_half_even y \<and> round_half_even y \<le> \<lceil>y\<rceil>"
proof -
  have "y = of_int \<lfloor>y\<rfloor> \<or> \<lceil>y\<rceil> = \<lfloor>y\<rfloor> + 1"
    by (metis ceiling_altdef)
  moreover have "round_half_even y = \<lfloor>y\<rfloor> + 1 \<Longrightarrow> y \<noteq> of_int \<lfloor>y\<rfloor>"
    by (auto simp: round_half_even_def Let_def split: if_splits)
  moreover have "round_half_even y = \<lfloor>y\<rfloor> \<or> round_half_even y = \<lfloor>y\<rfloor> + 1"
    by (auto simp: round_half_even_def Let_def)
  ultimately show ?thesis
    by (auto simp: ceiling_altdef split: if_splits)
qed

lemma round_half_even_error: "\<bar>of_int (round_half_even y) - y\<bar> \<le> 1 / 2"
proof -
  have "of_int \<lfloor>y\<rfloor> \<le> y" "y < of_int \<lfloor>y\<rfloor> + 1" by linarith+
  then show ?thesis
    by (auto simp: round_half_even_def Let_def abs_le_iff)
qed

lemma round_half_even_near:
  assumes "\<bar>y - of_int K\<bar> < 1 / 2"
  shows "round_half_even y = K"
proof -
  have "\<bar>(of_int (round_half_even y) :: rat) - of_int K\<bar> < 1"
    using round_half_even_error [of y] assms by linarith
  then have "\<bar>round_half_even y - K\<bar> < 1"
    by (metis of_int_1 of_int_abs of_int_diff of_int_less_iff)
  then show ?thesis by linarith
qed

lemma round_half_even_of_int: "round_half_even (of_int k) = k"
  by (rule round_half_even_near) simp

lemma round2_cents: "round2 (of_int k / 100) = of_int k / 100"
  by (simp add: round2_def round_half_even_of_int)

lemma round2_near:
  assumes "\<bar>p - of_int K / 100\<bar> < 1 / 200"
  shows "round2 p = of_int K / 100"
proof -
  have "\<bar>p * 100 - of_int K\<bar> < 1 / 2" using assms by (simp add: abs_less_iff field_simps)
  then show ?thesis by (simp add: round2_def round_half_even_near)
qed

lemma round2_bound:
  assumes "\<bar>x\<bar> \<le> 1000000"
  shows "\<bar>round2 x\<bar> \<le> 1000000"
proof -
  have "\<bar>x * 100\<bar> \<le> of_int (10 ^ 8)" using assms by (simp add: abs_le_iff)
  then have "\<lceil>x * 100\<rceil> \<le> 10 ^ 8" "- (10 ^ 8) \<le> \<lfloor>x * 100\<rfloor>"
    by (simp_all add: abs_le_iff ceiling_le_iff le_floor_iff)
  with round_half_even_bounds [of "x * 100"]
  have "\<bar>round_half_even (x * 100)\<bar> \<le> 10 ^ 8" by linarith
  then have "\<bar>(of_int (round_half_even (x * 100)) :: rat)\<bar> \<le> 10 ^ 8"
    by (metis of_int_abs of_int_le_iff of_int_numeral of_int_power)
  then show ?thesis by (simp add: round2_def)
qed

subsection \<open>The error of float operations\<close>

lemma double_consts:
  "(1000000 / 2 ^ 53 + 1 / 2 ^ 1075 :: rat) \<le> 1 / 1000000000"
  "(2000000000 / 2 ^ 53 + 1 / 2 ^ 1075 :: rat) \<le> 1 / 2000000"
  by simp_all

lemma nearest_double_small:
  assumes "nearest_double fl" and "\<bar>x\<bar> \<le> 1000000"
  shows "\<bar>fl x - x\<bar> \<le> 1 / 1000000000"
proof -
  have "\<bar>x\<bar> \<le> 2 * 10 ^ 9" using assms(2) by simp
  with assms(1) have "\<bar>fl x - x\<bar> \<le> \<bar>x\<bar> / 2 ^ 53 + 1 / 2 ^ 1075"
    by (simp add: nearest_double_def)
  also have "\<dots> \<le> 1000000 / 2 ^ 53 + 1 / 2 ^ 1075"
    using assms(2) by (simp add: divide_right_mono)
  also have "\<dots> \<le> 1 / 1000000000" by (rule double_consts)
  finally show ?thesis .
qed

lemma nearest_double_large:
  assumes "nearest_double fl" and "\<bar>x\<bar> \<le> 2000000000"
  shows "\<bar>fl x - x\<bar> \<le> 1 / 2000000"
proof -
  from assms have "\<bar>fl x - x\<bar> \<le> \<bar>x\<bar> / 2 ^ 53 + 1 / 2 ^ 1075"
    by (simp add: nearest_double_def)
  also have "\<dots> \<le> 2000000000 / 2 ^ 53 + 1 / 2 ^ 1075"
    using assms(2) by (simp add: divide_right_mono)
  also have "\<dots> \<le> 1 / 2000000" by (rule double_consts)
  finally show ?thesis .
qed

lemma stored_float_error:
  assumes nd: "nearest_double fl" and amt: "\<bar>fst (snd c)\<bar> \<le> 1000000"
  shows "\<bar>amount (stored_float fl c) - of_int (round_half_even (fst (snd c) * 100)) / 100\<bar>
           \<le> 1 / 1000000000"
    and "\<bar>(of_int (round_half_even (fst (snd c) * 100)) :: rat) / 100\<bar> \<le> 1000000"
    and "ttype (stored_float fl c) = fst c"
proof -
  obtain tt amt desc dt today where c: "c = (tt, amt, desc, dt, today)"
    by (cases c) auto
  have r: "of_int (round_half_even (fst (snd c) * 100)) / 100 = round2 (fst (snd c))"
    by (simp add: round2_def)
  have s: "amount (stored_float fl c) = fl (round2 (fst (snd c)))"
    by (simp add: c stored_float_def py_round2_def)
  have b: "\<bar>round2 (fst (snd c))\<bar> \<le> 1000000"
    using amt round2_bound [of "fst (snd c)"] by simp
  show "\<bar>amount (stored_float fl c) - of_int (round_half_even (fst (snd c) * 100)) / 100\<bar>
           \<le> 1 / 1000000000"
    unfolding r s using nd b by (rule nearest_double_small)
  show "\<bar>(of_int (round_half_even (fst (snd c) * 100)) :: rat) / 100\<bar> \<le> 1000000"
    unfolding r by (rule b)
  show "ttype (stored_float fl c) = fst c"
    by (simp add: c stored_float_def)
qed

lemma balance_step_float_error:
  assumes nd: "nearest_double fl" and amt: "\<bar>fst (snd c)\<bar> \<le> 1000000"
    and b: "\<bar>b - of_int K / 100\<bar> \<le> of_nat m / 1000000"
    and K: "\<bar>(of_int K :: rat) / 100\<bar> \<le> of_nat m * 1000000"
    and m: "m < 1000"
  shows "\<bar>balance_step_float fl b (stored_float fl c) - of_int (K + signed_cents c) / 100\<bar>
           \<le> of_nat (Suc m) / 1000000"
    and "\<bar>(of_int (K + signed_cents c) :: rat) / 100\<bar> \<le> of_nat (Suc m) * 1000000"
proof -
  define s where "s = amount (stored_float fl c)"
  define r :: rat where "r = of_int (round_half_even (fst (snd c) * 100)) / 100"
  define sg :: rat where "sg = (if fst c = ''income'' then 1 else - 1)"
  define P :: rat where "P = of_int K / 100"
  define M :: rat where "M = of_nat m"
  have sr: "\<bar>s - r\<bar> \<le> 1 / 1000000000" and rb: "\<bar>r\<bar> \<le> 1000000"
    and tt: "ttype (stored_float fl c) = fst c"
    using stored_float_error [OF nd amt] by (simp_all only: s_def r_def)
  have mb: "M \<le> 999" "0 \<le> M" using m by (simp_all add: M_def)
  have b': "\<bar>b - P\<bar> \<le> M / 1000000" using b by (simp only: P_def M_def)
  have K': "\<bar>P\<bar> \<le> M * 1000000" using K by (simp only: P_def M_def)
  have step: "balance_step_float fl b (stored_float fl c) = fl (b + sg * s)"
    by (simp add: balance_step_float_def tt s_def sg_def)
  have exact: "(of_int (K + signed_cents c) :: rat) / 100 = P + sg * r"
    by (simp add: signed_cents_def r_def sg_def P_def add_divide_distrib diff_divide_distrib)
  have suc: "(of_nat (Suc m) :: rat) = M + 1" by (simp add: M_def)
  have sg1: "\<bar>sg\<bar> = 1" by (simp add: sg_def)
  have "\<bar>sg * s - sg * r\<bar> = \<bar>sg\<bar> * \<bar>s - r\<bar>"
    by (simp add: abs_mult [symmetric] right_diff_distrib)
  with sr sg1 have sgs: "\<bar>sg * s - sg * r\<bar> \<le> 1 / 1000000000" by simp
  have "\<bar>sg * r\<bar> = \<bar>sg\<bar> * \<bar>r\<bar>" by (simp add: abs_mult)
  with rb sg1 have sgr: "\<bar>sg * r\<bar> \<le> 1000000" by simp
  define x where "x = sg * s"
  define y where "y = sg * r"
  have sgs': "\<bar>x - y\<bar> \<le> 1 / 1000000000" and sgr': "\<bar>y\<bar> \<le> 1000000"
    using sgs sgr by (simp_all only: x_def y_def)
  have zb: "\<bar>b + x\<bar> \<le> 2000000000"
    using b' K' sgs' sgr' mb by linarith
  have flz: "\<bar>fl (b + x) - (b + x)\<bar> \<le> 1 / 2000000"
    using nd zb by (rule nearest_double_large)
  have "\<bar>fl (b + x) - (P + y)\<bar> \<le> M / 1000000 + 1 / 1000000"
    using flz b' sgs' by linarith
  then have "\<bar>fl (b + x) - (P + y)\<bar> \<le> (M + 1) / 1000000"
    by (simp only: add_divide_distrib)
  then show "\<bar>balance_step_float fl b (stored_float fl c) - of_int (K + signed_cents c) / 100\<bar>
           \<le> of_nat (Suc m) / 1000000"
    by (simp only: step exact suc x_def y_def)
  have "\<bar>P + y\<bar> \<le> M * 1000000 + 1000000"
    using K' sgr' by linarith
  then have "\<bar>P + y\<bar> \<le> (M + 1) * 1000000"
    by (simp only: distrib_right mult_1)
  then show "\<bar>(of_int (K + signed_cents c) :: rat) / 100\<bar> \<le> of_nat (Suc m) * 1000000"
    by (simp only: exact suc y_def)
qed

lemma balance_float_error:
  assumes nd: "nearest_double fl"
  shows "\<forall>c \<in> set cs. \<bar>fst (snd c)\<bar> \<le> 1000000 \<Longrightarrow>
     \<bar>b - of_int K / 100\<bar> \<le> of_nat m / 1000000 \<Longrightarrow>
     \<bar>(of_int K :: rat) / 100\<bar> \<le> of_nat m * 1000000 \<Longrightarrow>
     m + length cs \<le> 1000 \<Longrightarrow>
     \<bar>foldl (balance_step_float fl) b (map (stored_float fl) cs)
        - of_int (K + sum_list (map signed_cents cs)) / 100\<bar> \<le> of_nat (m + length cs) / 1000000"
proof (induction cs arbitrary: b K m)
  case Nil
  then show ?case by simp
next
  case (Cons c cs)
  have m: "m < 1000" using Cons.prems(4) by simp
  have amt: "\<bar>fst (snd c)\<bar> \<le> 1000000" using Cons.prems(1) by simp
  note step = balance_step_float_error [OF nd amt Cons.prems(2,3) m]
  have "\<bar>foldl (balance_step_float fl) (balance_step_float fl b (stored_float fl c))
            (map (stored_float fl) cs)
        - of_int ((K + signed_cents c) + sum_list (map signed_cents cs)) / 100\<bar>
        \<le> of_nat (Suc m + length cs) / 1000000"
  proof (rule Cons.IH)
    show "\<forall>c \<in> set cs. \<bar>fst (snd c)\<bar> \<le> 1000000" using Cons.prems(1) by simp
    show "Suc m + length cs \<le> 1000" using Cons.prems(4) by simp
  qed (rule step)+
  then show ?case by (simp add: add.assoc)
qed

subsection \<open>Rounding to 53 bits is a rounding to the nearest double\<close>

lemma binary_exponent_lower:
  assumes "x \<noteq> 0"
  shows "2 powi (binary_exponent x) \<le> \<bar>x\<bar>"
proof -
  obtain p q where pq: "quotient_of \<bar>x\<bar> = (p, q)" by (cases "quotient_of \<bar>x\<bar>")
  then have q: "0 < q" and x: "\<bar>x\<bar> = of_int p / of_int q"
    by (simp_all add: quotient_of_denom_pos quotient_of_div)
  from assms have "0 < \<bar>x\<bar>" by simp
  with x q have p: "0 < p" by (simp add: zero_less_divide_iff)
  define d where "d = bitlen p - bitlen q"
  show ?thesis
  proof (cases "2 powi d \<le> \<bar>x\<bar>")
    case True
    then show ?thesis by (simp add: binary_exponent_def pq d_def Let_def)
  next
    case False
    have bp: "1 \<le> bitlen p" and bq: "1 \<le> bitlen q"
      using p q by (simp_all add: bitlen_alt_def)
    have lo: "(2 :: int) ^ nat (bitlen p - 1) \<le> p" and hi: "q \<le> 2 ^ nat (bitlen q)"
      using bitlen_bounds [OF p] bitlen_bounds [OF q] by simp_all
    have "(2 :: rat) powi (d - 1) = 2 powi (bitlen p - 1) / 2 powi (bitlen q)"
      by (simp add: d_def power_int_diff [symmetric] algebra_simps)
    also have "\<dots> = 2 ^ nat (bitlen p - 1) / 2 ^ nat (bitlen q)"
      using bp bq by (simp add: power_int_def)
    also have "\<dots> \<le> of_int p / of_int q"
    proof -
      have a: "(2 :: rat) ^ nat (bitlen p - 1) \<le> of_int p"
        using lo by (metis of_int_le_iff of_int_numeral of_int_power)
      have b: "(of_int q :: rat) \<le> 2 ^ nat (bitlen q)"
        using hi by (metis of_int_le_iff of_int_numeral of_int_power)
      have "0 < (of_int q :: rat)" using q by simp
      with a b p show ?thesis
        by (intro frac_le) simp_all
    qed
    finally have "2 powi (d - 1) \<le> \<bar>x\<bar>" using x by simp
    with False show ?thesis by (simp add: binary_exponent_def pq d_def Let_def)
  qed
qed

lemma nearest53_error: "\<bar>nearest53 x - x\<bar> \<le> \<bar>x\<bar> / 2 ^ 53"
proof (cases "x = 0")
  case True
  then show ?thesis by (simp add: nearest53_def)
next
  case False
  define ulp :: rat where "ulp = 2 powi (binary_exponent x - 52)"
  have pos: "0 < ulp" by (simp add: ulp_def)
  have n: "nearest53 x = of_int (round_half_even (x / ulp)) * ulp"
    using False by (simp add: nearest53_def ulp_def Let_def)
  have "nearest53 x - x = (of_int (round_half_even (x / ulp)) - x / ulp) * ulp"
    using pos by (simp add: n left_diff_distrib)
  then have "\<bar>nearest53 x - x\<bar> = \<bar>of_int (round_half_even (x / ulp)) - x / ulp\<bar> * ulp"
    using pos by (simp add: abs_mult)
  also have "\<dots> \<le> 1 / 2 * ulp"
    using round_half_even_error [of "x / ulp"] pos by (intro mult_right_mono) simp_all
  also have "\<dots> = 2 powi (binary_exponent x) / 2 ^ 53"
  proof -
    have "ulp = 2 powi (binary_exponent x) / 2 powi 52"
      by (simp add: ulp_def power_int_diff)
    then show ?thesis by simp
  qed
  also have "\<dots> \<le> \<bar>x\<bar> / 2 ^ 53"
    using binary_exponent_lower [OF False] by (simp add: divide_right_mono)
  finally show ?thesis .
qed

lemma nearest_double_nearest53: "nearest_double nearest53"
proof -
  have "\<bar>nearest53 x - x\<bar> \<le> \<bar>x\<bar> / 2 ^ 53 + 1 / 2 ^ 1075" for x
  proof -
    have "(0 :: rat) \<le> 1 / 2 ^ 1075" by simp
    with nearest53_error [of x] show ?thesis by linarith
  qed
  then show ?thesis by (simp only: nearest_double_def) blast
qed

subsection \<open>With exact rounding the float methods are the exact ones\<close>

lemma balance_step_float_exact: "balance_step_float (\<lambda>x. x) = balance_step"
  by (simp add: fun_eq_iff balance_step_float_def balance_step_def)

lemma balance_float_exact: "balance_float (\<lambda>x. x) = balance"
  by (simp add: fun_eq_iff balance_float_def balance_def balance_step_float_exact)

lemma py_round2_exact: "py_round2 (\<lambda>x. x) = round2"
  by (simp add: fun_eq_iff py_round2_def)

lemma record_transaction_float_exact: "record_transaction_float (\<lambda>x. x) = record_transaction"
  unfolding fun_eq_iff record_transaction_float_def record_transaction_def py_round2_exact
  by simp

lemma student_report_float_exact: "student_report_float (\<lambda>x. x) = student_report"
  unfolding fun_eq_iff student_report_float_def student_report_def py_round2_exact
    balance_float_exact
  by simp

lemma record_all_float_exact: "record_all_float (\<lambda>x. x) fm sid cs = record_all fm sid cs"
  by (induction cs arbitrary: fm) (auto simp: record_transaction_float_exact split: prod.splits)

lemma reported_balance_float_exact: "reported_balance_float (\<lambda>x. x) = reported_balance"
  unfolding fun_eq_iff reported_balance_float_def reported_balance_def student_report_float_exact
  by simp

subsection \<open>The reported balance in float arithmetic\<close>

lemma record_transaction_float_success:
  assumes "find_student fm sid = Some s"
    and "record_transaction_float fl fm sid tt amt desc dt today = (True, fm')"
  shows "tt \<in> {''income'', ''expense''} \<and>
         find_student fm' sid = Some (s\<lparr>transactions := transactions s @
            [stored_float fl (tt, amt, desc, dt, today)]\<rparr>)"
  using assms
  by (auto simp: record_transaction_float_def find_student_def update_conv' Let_def
      stored_float_def split: if_splits)

lemma record_all_float_stored:
  "find_student fm sid = Some s \<Longrightarrow> record_all_float fl fm sid cs = (True, fm') \<Longrightarrow>
   (\<forall>c \<in> set cs. fst c \<in> {''income'', ''expense''}) \<and>
   (\<exists>s'. find_student fm' sid = Some s' \<and>
         transactions s' = transactions s @ map (stored_float fl) cs)"
proof (induction cs arbitrary: fm s)
  case Nil
  then show ?case by simp
next
  case (Cons c cs)
  obtain tt amt desc dt today where c: "c = (tt, amt, desc, dt, today)"
    by (cases c) auto
  obtain ok fm1 where step: "record_transaction_float fl fm sid tt amt desc dt today = (ok, fm1)"
    by (cases "record_transaction_float fl fm sid tt amt desc dt today")
  obtain oks fm2 where rest: "record_all_float fl fm1 sid cs = (oks, fm2)"
    by (cases "record_all_float fl fm1 sid cs")
  from Cons.prems(2) c step rest have ok: "ok" and oks: "oks" and fm2: "fm2 = fm'"
    by simp_all
  let ?s1 = "s\<lparr>transactions := transactions s @ [stored_float fl c]\<rparr>"
  from record_transaction_float_success [OF Cons.prems(1)] step ok c
  have tt: "tt \<in> {''income'', ''expense''}" and s1: "find_student fm1 sid = Some ?s1"
    by simp_all
  from Cons.IH [OF s1] rest oks fm2
  have "(\<forall>c \<in> set cs. fst c \<in> {''income'', ''expense''}) \<and>
   (\<exists>s'. find_student fm' sid = Some s' \<and>
         transactions s' = transactions ?s1 @ map (stored_float fl) cs)"
    by simp
  with tt c show ?case by auto
qed

lemma signed_cents_sum:
  "\<forall>c \<in> set cs. fst c \<in> {''income'', ''expense''} \<Longrightarrow>
   sum_list (map round2 (amounts_of ''income'' cs)) - sum_list (map round2 (amounts_of ''expense'' cs))
     = of_int (sum_list (map signed_cents cs)) / 100"
proof (induction cs)
  case Nil
  then show ?case by (simp add: amounts_of_def)
next
  case (Cons c cs)
  then have IH: "sum_list (map round2 (amounts_of ''income'' cs))
      - sum_list (map round2 (amounts_of ''expense'' cs))
     = of_int (sum_list (map signed_cents cs)) / 100"
    and c: "fst c = ''income'' \<or> fst c = ''expense''"
    by simp_all
  have split: "(of_int (signed_cents c + sum_list (map signed_cents cs)) :: rat) / 100
      = of_int (signed_cents c) / 100 + of_int (sum_list (map signed_cents cs)) / 100"
    by (simp add: add_divide_distrib)
  from c show ?case
  proof
    assume i: "fst c = ''income''"
    then have "of_int (signed_cents c) / 100 = round2 (fst (snd c))"
      by (simp add: signed_cents_def round2_def)
    with i IH split show ?thesis by (simp add: amounts_of_def)
  next
    assume e: "fst c = ''expense''"
    then have "of_int (signed_cents c) / 100 = - round2 (fst (snd c))"
      by (simp add: signed_cents_def round2_def)
    with e IH split show ?thesis by (simp add: amounts_of_def)
  qed
qed

lemma nearest53_103: "nearest53 (103 / 100) = 4638707616191611 / 4503599627370496"
  by code_simp

lemma round2_1234: "round2 (617 / 500) = 123 / 100"
  by code_simp
lemma round2_2: "round2 (1 / 5) = 1 / 5"
  by code_simp
lemma round2_103: "round2 (103 / 100) = 103 / 100"
  by code_simp

text \<open>
  C4, amended: for a student with no transaction yet, after at most 1000 calls of
  \<^verbatim>\<open>record_transaction\<close> on that student that all returned \<^verbatim>\<open>True\<close>, with amounts of
  absolute value at most 1,000,000, the balance in the report is \<^verbatim>\<open>round(S, 2)\<close>, the
  double nearest to \<open>S\<close>, where \<open>S\<close> is the exact sum of the income amounts, each rounded to
  two decimals, minus the exact sum of the expense amounts, each rounded to two decimals.
  The float additions of \<^verbatim>\<open>Student.balance\<close> and the float the rounded amount is stored
  as are in the statement through \<open>fl\<close>, which is any rounding with the error of a rounding
  to the nearest double; within these bounds the errors add up to less than half a cent,
  and the \<^verbatim>\<open>round\<close> in the report removes them.
\<close>

theorem reported_balance_float_bounded:
  assumes nd: "nearest_double fl"
    and found: "find_student fm sid = Some s" and fresh: "transactions s = []"
    and calls: "record_all_float fl fm sid cs = (True, fm')"
    and count: "length cs \<le> 1000"
    and size: "\<forall>c \<in> set cs. \<bar>fst (snd c)\<bar> \<le> 10 ^ 6"
  shows "reported_balance_float fl fm' sid =
           Some (JNum (py_round2 fl (sum_list (map round2 (amounts_of ''income'' cs))
                                    - sum_list (map round2 (amounts_of ''expense'' cs)))))"
proof -
  from record_all_float_stored [OF found calls] fresh obtain s' where
    types: "\<forall>c \<in> set cs. fst c \<in> {''income'', ''expense''}" and
    s': "find_student fm' sid = Some s'" and
    ts: "transactions s' = map (stored_float fl) cs"
    by auto
  define K where "K = sum_list (map signed_cents cs)"
  have sum: "sum_list (map round2 (amounts_of ''income'' cs))
      - sum_list (map round2 (amounts_of ''expense'' cs)) = of_int K / 100"
    unfolding K_def using types by (rule signed_cents_sum)
  have size': "\<forall>c \<in> set cs. \<bar>fst (snd c)\<bar> \<le> 1000000" using size by simp
  have "\<bar>foldl (balance_step_float fl) 0 (map (stored_float fl) cs)
        - of_int (0 + sum_list (map signed_cents cs)) / 100\<bar> \<le> of_nat (0 + length cs) / 1000000"
    using nd size' by (rule balance_float_error) (simp_all add: count)
  then have err: "\<bar>balance_float fl s' - of_int K / 100\<bar> \<le> of_nat (length cs) / 1000000"
    by (simp add: balance_float_def ts K_def)
  have "(of_nat (length cs) :: rat) \<le> 1000" using count by simp
  with err have "\<bar>balance_float fl s' - of_int K / 100\<bar> < 1 / 200" by linarith
  then have "round2 (balance_float fl s') = of_int K / 100" by (rule round2_near)
  then have "round2 (balance_float fl s') = round2 (of_int K / 100)"
    by (simp only: round2_cents)
  then have "py_round2 fl (balance_float fl s') = py_round2 fl (of_int K / 100)"
    by (simp only: py_round2_def)
  then have "py_round2 fl (balance_float fl s')
      = py_round2 fl (sum_list (map round2 (amounts_of ''income'' cs))
                      - sum_list (map round2 (amounts_of ''expense'' cs)))"
    by (simp only: sum)
  with s' show ?thesis
    by (simp add: reported_balance_float_def student_report_float_def)
qed

theorem reported_balance_float_bounded_witness:
  "nearest_double nearest53
   \<and> fst (record_all_float nearest53
         \<lparr>students = [(''S1'', \<lparr>student_id = ''S1'', name = ''Alice'', transactions = []\<rparr>)]\<rparr>
         ''S1''
         [(''income'', 617 / 500, ''Grant'', Some ''2024-01-10'', ''2024-02-01''),
          (''expense'', 1 / 5, ''Books'', None, ''2024-02-01'')])
   \<and> reported_balance_float nearest53
        (snd (record_all_float nearest53
           \<lparr>students = [(''S1'', \<lparr>student_id = ''S1'', name = ''Alice'', transactions = []\<rparr>)]\<rparr>
           ''S1''
           [(''income'', 617 / 500, ''Grant'', Some ''2024-01-10'', ''2024-02-01''),
            (''expense'', 1 / 5, ''Books'', None, ''2024-02-01'')]))
        ''S1''
       = Some (JNum (4638707616191611 / 4503599627370496))"
proof -
  let ?fm = "\<lparr>students = [(''S1'', \<lparr>student_id = ''S1'', name = ''Alice'', transactions = []\<rparr>)]\<rparr>"
  let ?cs = "[(''income'', 617 / 500, ''Grant'', Some ''2024-01-10'', ''2024-02-01''),
          (''expense'', 1 / 5, ''Books'', None, ''2024-02-01'')] :: call list"
  have f: "find_student ?fm ''S1''
      = Some \<lparr>student_id = ''S1'', name = ''Alice'', transactions = []\<rparr>"
    by (simp add: find_student_def)
  have e: "transactions \<lparr>student_id = ''S1'', name = ''Alice'', transactions = []\<rparr> = []"
    by simp
  have ok: "fst (record_all_float nearest53 ?fm ''S1'' ?cs)"
    by (simp add: record_transaction_float_def find_student_def)
  then have r: "record_all_float nearest53 ?fm ''S1'' ?cs
      = (True, snd (record_all_float nearest53 ?fm ''S1'' ?cs))"
    by (simp add: prod_eq_iff)
  have n: "length ?cs \<le> 1000" by simp
  have b: "\<forall>c \<in> set ?cs. \<bar>fst (snd c)\<bar> \<le> 10 ^ 6" by simp
  have "reported_balance_float nearest53 (snd (record_all_float nearest53 ?fm ''S1'' ?cs)) ''S1''
      = Some (JNum (py_round2 nearest53
          (sum_list (map round2 (amounts_of ''income'' ?cs))
           - sum_list (map round2 (amounts_of ''expense'' ?cs)))))"
    using nearest_double_nearest53 f e r n b by (rule reported_balance_float_bounded)
  also have "sum_list (map round2 (amounts_of ''income'' ?cs))
           - sum_list (map round2 (amounts_of ''expense'' ?cs)) = 103 / 100"
    by (simp add: amounts_of_def round2_1234 round2_2)
  finally have "reported_balance_float nearest53
      (snd (record_all_float nearest53 ?fm ''S1'' ?cs)) ''S1''
      = Some (JNum (4638707616191611 / 4503599627370496))"
    by (simp add: py_round2_def round2_103 nearest53_103)
  with ok nearest_double_nearest53 show ?thesis by simp
qed

subsection \<open>Loading\<close>

text \<open>
  C9. A document that is an object without the key \<^verbatim>\<open>"students"\<close> (the document
  \<^verbatim>\<open>{}\<close> for one) is loaded with \<^verbatim>\<open>True\<close>, and the manager is left with no student,
  whatever it held. An entry without the key \<^verbatim>\<open>"transactions"\<close> is read as a student
  with no transaction, and a document holding that entry is loaded with \<^verbatim>\<open>True\<close>.
  Neither missing list makes the file malformed.
\<close>

theorem load_missing_lists_default:
  "(fs path = Some (Doc (JObj kvs)) \<and> map_of kvs ''students'' = None \<longrightarrow>
      load fm path fs = Returned True (Loaded path) (fm\<lparr>students := []\<rparr>))
   \<and> (map_of e ''transactions'' = None \<and> map_of e ''student_id'' = Some (JStr i)
        \<and> map_of e ''name'' = Some (JStr n) \<longrightarrow>
        load_student (JObj e) = Ok \<lparr>student_id = i, name = n, transactions = []\<rparr>
        \<and> (fs path = Some (Doc (JObj [(''students'', JArr [JObj e])])) \<longrightarrow>
             load fm path fs = Returned True (Loaded path)
               (fm\<lparr>students := [(i, \<lparr>student_id = i, name = n, transactions = []\<rparr>)]\<rparr>)))"
proof (intro conjI impI)
  assume "fs path = Some (Doc (JObj kvs)) \<and> map_of kvs ''students'' = None"
  then show "load fm path fs = Returned True (Loaded path) (fm\<lparr>students := []\<rparr>)"
    by (simp add: load_def py_get_def py_iter_def)
next
  assume a: "map_of e ''transactions'' = None \<and> map_of e ''student_id'' = Some (JStr i)
        \<and> map_of e ''name'' = Some (JStr n)"
  then show s: "load_student (JObj e) = Ok \<lparr>student_id = i, name = n, transactions = []\<rparr>"
    by (simp add: load_student_def py_get_def py_iter_def py_index_def as_str_def)
  assume "fs path = Some (Doc (JObj [(''students'', JArr [JObj e])]))"
  with s show "load fm path fs = Returned True (Loaded path)
               (fm\<lparr>students := [(i, \<lparr>student_id = i, name = n, transactions = []\<rparr>)]\<rparr>)"
    by (simp add: load_def py_get_def py_iter_def)
qed

theorem load_missing_lists_default_witness:
  "load \<lparr>students = [(''S1'', \<lparr>student_id = ''S1'', name = ''Alice'', transactions = []\<rparr>)]\<rparr>
      ''empty.json'' (Map.empty(''empty.json'' \<mapsto> Doc (JObj [])))
     = Returned True (Loaded ''empty.json'') \<lparr>students = []\<rparr>
   \<and> load \<lparr>students = [(''S1'', \<lparr>student_id = ''S1'', name = ''Alice'', transactions = []\<rparr>)]\<rparr>
      ''bob.json''
      (Map.empty(''bob.json'' \<mapsto> Doc (JObj [(''students'',
          JArr [JObj [(''student_id'', JStr ''S2''), (''name'', JStr ''Bob'')]])])))
     = Returned True (Loaded ''bob.json'')
         \<lparr>students = [(''S2'', \<lparr>student_id = ''S2'', name = ''Bob'', transactions = []\<rparr>)]\<rparr>"
  using load_missing_lists_default [where fs = "Map.empty(''empty.json'' \<mapsto> Doc (JObj []))"
      and path = "''empty.json''" and kvs = "[]"
      and fm = "\<lparr>students = [(''S1'', \<lparr>student_id = ''S1'', name = ''Alice'', transactions = []\<rparr>)]\<rparr>"
      and e = "[(''student_id'', JStr ''S2''), (''name'', JStr ''Bob'')]"
      and i = "''S2''" and n = "''Bob''"]
    load_missing_lists_default [where fs = "Map.empty(''bob.json'' \<mapsto> Doc (JObj [(''students'',
          JArr [JObj [(''student_id'', JStr ''S2''), (''name'', JStr ''Bob'')]])]))"
      and path = "''bob.json''" and kvs = "[(''x'', JNull)]"
      and fm = "\<lparr>students = [(''S1'', \<lparr>student_id = ''S1'', name = ''Alice'', transactions = []\<rparr>)]\<rparr>"
      and e = "[(''student_id'', JStr ''S2''), (''name'', JStr ''Bob'')]"
      and i = "''S2''" and n = "''Bob''"]
  by simp

text \<open>
  A file that is not JSON makes \<^verbatim>\<open>load\<close> return \<^verbatim>\<open>False\<close> with the manager as it
  was: \<^verbatim>\<open>json.load\<close> raises before \<^verbatim>\<open>self.students\<close> is assigned.
\<close>

lemma load_unparsable_unchanged:
  "fs path = Some Unparsable \<Longrightarrow> load fm path fs = Returned False (FailedToLoad JSONDecodeError) fm"
  by (simp add: load_def)

text \<open>
  C1 asks that a failed load leave the manager as it was. For a document whose second
  entry has no \<^verbatim>\<open>"student_id"\<close>, \<^verbatim>\<open>load\<close> returns \<^verbatim>\<open>False\<close> for the \<^verbatim>\<open>KeyError\<close>,
  but \<^verbatim>\<open>self.students\<close> was emptied before the loop and already holds the first entry:
  the student the manager held before the call is gone and a student of the rejected
  file is in.
\<close>

theorem load_partial_mutation:
  "load \<lparr>students = [(''S1'', \<lparr>student_id = ''S1'', name = ''Alice'', transactions = []\<rparr>)]\<rparr>
      ''students_finance.json''
      (Map.empty(''students_finance.json'' \<mapsto> Doc (JObj [(''students'',
          JArr [JObj [(''student_id'', JStr ''S2''), (''name'', JStr ''Bob'')],
                JObj [(''name'', JStr ''Carol'')]])])))
     = Returned False (FailedToLoad (KeyError ''student_id''))
         \<lparr>students = [(''S2'', \<lparr>student_id = ''S2'', name = ''Bob'', transactions = []\<rparr>)]\<rparr>"
  by (simp add: load_def load_student_def py_get_def py_iter_def py_index_def as_str_def)

text \<open>
  C3, as the specification words it: the result of \<^verbatim>\<open>load\<close> for a missing file can be
  told from its result for a malformed file. Both calls return \<^verbatim>\<open>False\<close>.
\<close>

theorem load_results_counterexample:
  "returned (load \<lparr>students = [(''S1'', \<lparr>student_id = ''S1'', name = ''Alice'', transactions = []\<rparr>)]\<rparr>
       ''missing.json'' (Map.empty(''bad.json'' \<mapsto> Unparsable))) = Some False
   \<and> returned (load \<lparr>students = [(''S1'', \<lparr>student_id = ''S1'', name = ''Alice'', transactions = []\<rparr>)]\<rparr>
       ''bad.json'' (Map.empty(''bad.json'' \<mapsto> Unparsable))) = Some False
   \<and> returned (load \<lparr>students = [(''S1'', \<lparr>student_id = ''S1'', name = ''Alice'', transactions = []\<rparr>)]\<rparr>
       ''missing.json'' (Map.empty(''bad.json'' \<mapsto> Unparsable)))
     = returned (load \<lparr>students = [(''S1'', \<lparr>student_id = ''S1'', name = ''Alice'', transactions = []\<rparr>)]\<rparr>
       ''bad.json'' (Map.empty(''bad.json'' \<mapsto> Unparsable)))"
  by (simp add: load_def returned_def)

text \<open>
  C3, amended: \<^verbatim>\<open>load\<close> on a path with no file leaves the manager as it was and returns
  \<^verbatim>\<open>False\<close>, the value it also returns for a file that is not JSON; the two cases
  differ only in the line printed, which is the no-data-file line exactly when the file
  is missing.
\<close>

theorem load_missing_file:
  "(fs path = None \<longrightarrow> load fm path fs = Returned False (NoDataFile path) fm)
   \<and> (fs path = Some Unparsable \<longrightarrow>
        load fm path fs = Returned False (FailedToLoad JSONDecodeError) fm)
   \<and> (load fm path fs = Returned b out fm' \<longrightarrow> (out = NoDataFile path) = (fs path = None))"
  by (auto simp: load_def split: option.splits file_content.splits res.splits prod.splits)

theorem load_missing_file_witness:
  "load \<lparr>students = [(''S1'', \<lparr>student_id = ''S1'', name = ''Alice'', transactions = []\<rparr>)]\<rparr>
       ''missing.json'' (Map.empty(''bad.json'' \<mapsto> Unparsable))
     = Returned False (NoDataFile ''missing.json'')
        \<lparr>students = [(''S1'', \<lparr>student_id = ''S1'', name = ''Alice'', transactions = []\<rparr>)]\<rparr>
   \<and> load \<lparr>students = [(''S1'', \<lparr>student_id = ''S1'', name = ''Alice'', transactions = []\<rparr>)]\<rparr>
       ''bad.json'' (Map.empty(''bad.json'' \<mapsto> Unparsable))
     = Returned False (FailedToLoad JSONDecodeError)
        \<lparr>students = [(''S1'', \<lparr>student_id = ''S1'', name = ''Alice'', transactions = []\<rparr>)]\<rparr>
   \<and> FailedToLoad JSONDecodeError \<noteq> NoDataFile ''bad.json''"
  using load_missing_file [where fs = "Map.empty(''bad.json'' \<mapsto> Unparsable)"
      and path = "''missing.json''"
      and fm = "\<lparr>students = [(''S1'', \<lparr>student_id = ''S1'', name = ''Alice'', transactions = []\<rparr>)]\<rparr>"]
    load_missing_file [where fs = "Map.empty(''bad.json'' \<mapsto> Unparsable)"
      and path = "''bad.json''"
      and fm = "\<lparr>students = [(''S1'', \<lparr>student_id = ''S1'', name = ''Alice'', transactions = []\<rparr>)]\<rparr>"
      and b = False and out = "FailedToLoad JSONDecodeError"
      and fm' = "\<lparr>students = [(''S1'', \<lparr>student_id = ''S1'', name = ''Alice'', transactions = []\<rparr>)]\<rparr>"]
  by simp

end
